theory Spec2Isabelle
  imports Main "HOL-Library.Word"
begin

section \<open>The asset registry chaincode (atcc.go)\<close>

text \<open>
  The chaincode keeps one JSON record per asset in the world state of a Fabric
  ledger and reaches it through the stub of the transaction context
  (\<^verbatim>\<open>GetState\<close>, \<^verbatim>\<open>PutState\<close>, \<^verbatim>\<open>DelState\<close>). The functions of \<^verbatim>\<open>atcc.go\<close> are
  embedded one by one: a function that returns \<^verbatim>\<open>error\<close> returns an
  \<open>error option\<close> (\<open>None\<close> is \<^verbatim>\<open>nil\<close>) together with the stub it leaves behind, a
  function that returns \<^verbatim>\<open>(T, error)\<close> returns \<open>error + T\<close>.
\<close>

subsection \<open>Assets and errors\<close>

text \<open>
  \<^verbatim>\<open>type Asset struct\<close>, fields in the order of the source. Go's \<^verbatim>\<open>int\<close> is a signed
  64-bit integer on the platforms Fabric runs on; a Go \<^verbatim>\<open>string\<close> is a sequence of
  bytes, as \<^typ>\<open>string\<close> is.
\<close>

record Asset =
  AppraisedValue :: "64 word"
  Color :: string
  ID :: string
  Owner :: string
  Size :: "64 word"

text \<open>
  Error values. \<open>Errorf\<close> is the value of \<^verbatim>\<open>fmt.Errorf(format, args...)\<close>, kept as the
  format string and its arguments; \<open>StubError\<close> is an error handed out by the stub;
  the last two are the errors of \<^verbatim>\<open>json.Unmarshal\<close> (a \<^verbatim>\<open>*json.SyntaxError\<close>, and a
  \<^verbatim>\<open>*json.UnmarshalTypeError\<close> with the struct field it hit, empty at top level).
\<close>

datatype error =
    StubError string
  | Errorf string "arg list"
  | SyntaxError
  | UnmarshalTypeError string
and arg = ArgString string | ArgError error

subsection \<open>UTF-8, as package unicode/utf8 reads it\<close>

text \<open>
  \<open>accept rs cs\<close>: the bytes at the head of \<open>cs\<close> lie in the ranges \<open>rs\<close>, one
  range per byte.
\<close>

fun accept :: "(nat \<times> nat) list \<Rightarrow> string \<Rightarrow> bool" where
  "accept [] cs = True"
| "accept (r # rs) [] = False"
| "accept (r # rs) (c # cs) = (fst r \<le> of_char c \<and> of_char c \<le> snd r \<and> accept rs cs)"

text \<open>
  The ranges of the bytes that may follow the first byte \<open>b\<close> of an encoded rune
  (the tables \<^verbatim>\<open>first\<close> and \<^verbatim>\<open>acceptRanges\<close> of \<^verbatim>\<open>utf8.go\<close>); \<open>None\<close> when no
  encoding starts with \<open>b\<close>.
\<close>

definition tail_ranges :: "nat \<Rightarrow> (nat \<times> nat) list option" where
  "tail_ranges b =
     (if b < 0x80 then Some []
      else if 0xC2 \<le> b \<and> b \<le> 0xDF then Some [(0x80, 0xBF)]
      else if b = 0xE0 then Some [(0xA0, 0xBF), (0x80, 0xBF)]
      else if 0xE1 \<le> b \<and> b \<le> 0xEC then Some [(0x80, 0xBF), (0x80, 0xBF)]
      else if b = 0xED then Some [(0x80, 0x9F), (0x80, 0xBF)]
      else if 0xEE \<le> b \<and> b \<le> 0xEF then Some [(0x80, 0xBF), (0x80, 0xBF)]
      else if b = 0xF0 then Some [(0x90, 0xBF), (0x80, 0xBF), (0x80, 0xBF)]
      else if 0xF1 \<le> b \<and> b \<le> 0xF3 then Some [(0x80, 0xBF), (0x80, 0xBF), (0x80, 0xBF)]
      else if b = 0xF4 then Some [(0x80, 0x8F), (0x80, 0xBF), (0x80, 0xBF)]
      else None)"

text \<open>
  The width of the rune encoded at the head of a string, 0 where
  \<^verbatim>\<open>utf8.DecodeRuneInString\<close> answers \<^verbatim>\<open>(RuneError, 1)\<close>: the head is not the start of
  a well-formed encoding.
\<close>

fun rune_size :: "string \<Rightarrow> nat" where
  "rune_size [] = 0"
| "rune_size (c # cs) =
     (case tail_ranges (of_char c) of
        None \<Rightarrow> 0
      | Some rs \<Rightarrow> if accept rs cs then Suc (length rs) else 0)"

text \<open>\<^verbatim>\<open>utf8.ValidString\<close>.\<close>

function ValidString :: "string \<Rightarrow> bool" where
  "ValidString [] = True"
| "ValidString (c # cs) =
     (if rune_size (c # cs) = 0 then False
      else ValidString (drop (rune_size (c # cs)) (c # cs)))"
  by pat_completeness auto
termination
  by (relation "measure length") auto

text \<open>The encoding of U+FFFD, the replacement rune.\<close>

definition RuneError :: string where
  "RuneError = [char_of (0xEF :: nat), char_of (0xBF :: nat), char_of (0xBD :: nat)]"

text \<open>
  What encoding/json makes of the bytes of a string, on the way out
  (\<^verbatim>\<open>appendString\<close>) as on the way in (\<^verbatim>\<open>unquote\<close>): well-formed runes are kept,
  every other byte becomes U+FFFD.
\<close>

function ToValidUTF8 :: "string \<Rightarrow> string" where
  "ToValidUTF8 [] = []"
| "ToValidUTF8 (c # cs) =
     (if rune_size (c # cs) = 0 then RuneError @ ToValidUTF8 cs
      else take (rune_size (c # cs)) (c # cs)
             @ ToValidUTF8 (drop (rune_size (c # cs)) (c # cs)))"
  by pat_completeness auto
termination
  by (relation "measure length") auto

subsection \<open>JSON, as package encoding/json reads and writes it\<close>

text \<open>
  The contract never looks into the bytes of the world state itself: it gets them
  from \<^verbatim>\<open>json.Marshal\<close> and hands them to \<^verbatim>\<open>json.Unmarshal\<close>. They are kept at the
  level at which encoding/json tells them apart: bytes that are no JSON text
  (\<open>NotJSON\<close>), or the JSON value they spell. Strings and member names are the
  unquoted bytes; a number is \<open>JInt n\<close> when its literal has neither fraction nor
  exponent (the literals \<^verbatim>\<open>strconv.ParseInt\<close> reads), \<open>JFloat\<close> otherwise; the
  members of an object are in the order of the text, duplicates included.
\<close>

datatype json =
    JNull
  | JBool bool
  | JInt int
  | JFloat
  | JString string
  | JArray "json list"
  | JObject "(string \<times> json) list"

datatype bytes = JSON json | NotJSON

text \<open>
  \<^verbatim>\<open>json.Marshal(asset)\<close>: an object with the five members in the order of the
  struct, named by the \<^verbatim>\<open>json:\<close> tags. An int is written as its decimal literal;
  in the words of the package, "String values encode as JSON strings coerced to
  valid UTF-8, replacing invalid bytes with the Unicode replacement rune."
  \<^verbatim>\<open>Marshal\<close> has no failing case for this struct; the contract tests its error
  all the same, and so does the embedding.
\<close>

definition encodeAsset :: "Asset \<Rightarrow> json" where
  "encodeAsset a = JObject
     [(''AppraisedValue'', JInt (sint (AppraisedValue a))),
      (''Color'', JString (ToValidUTF8 (Color a))),
      (''ID'', JString (ToValidUTF8 (ID a))),
      (''Owner'', JString (ToValidUTF8 (Owner a))),
      (''Size'', JInt (sint (Size a)))]"

definition Marshal :: "Asset \<Rightarrow> error + bytes" where
  "Marshal a = Inr (JSON (encodeAsset a))"

text \<open>
  \<^verbatim>\<open>Unmarshal\<close> "matches incoming object keys to the keys used by Marshal [...],
  preferring an exact match but also accepting a case-insensitive match".
  \<^verbatim>\<open>foldName\<close> is the key under which a member name is looked up when it is not a
  field name letter for letter. ASCII letters go to upper case and a rune goes to
  the least rune of its case-folding orbit, which is an ASCII letter for two runes
  only: U+017F (bytes C5 BF) folds to S and U+212A (bytes E2 84 AA) to K. The
  folded name is only ever compared with the field names, which are ASCII, so the
  other runes are kept as they are.
\<close>

fun foldName :: "string \<Rightarrow> string" where
  "foldName [] = []"
| "foldName (c # cs) =
     (if (0x61 :: nat) \<le> of_char c \<and> of_char c \<le> (0x7A :: nat)
        then char_of (of_char c - (0x20 :: nat)) # foldName cs
      else if of_char c = (0xC5 :: nat) then
        (case cs of
           c1 # cs1 \<Rightarrow> if of_char c1 = (0xBF :: nat) then CHR ''S'' # foldName cs1
                       else c # foldName cs
         | [] \<Rightarrow> c # foldName cs)
      else if of_char c = (0xE2 :: nat) then
        (case cs of
           c1 # c2 # cs2 \<Rightarrow>
             if of_char c1 = (0x84 :: nat) \<and> of_char c2 = (0xAA :: nat)
               then CHR ''K'' # foldName cs2
             else c # foldName cs
         | _ \<Rightarrow> c # foldName cs)
      else c # foldName cs)"

text \<open>
  The decoder's state while it fills the struct: the asset so far and
  \<^verbatim>\<open>d.savedError\<close>. \<^verbatim>\<open>saveError\<close> keeps the first error and decoding goes on: "If
  a JSON value is not appropriate for a given target type, or if a JSON number
  overflows the target type, Unmarshal skips that field and completes the
  unmarshaling as best it can [and] returns an UnmarshalTypeError describing the
  earliest such error."
\<close>

type_synonym decodeState = "Asset \<times> error option"

definition saveError :: "error \<Rightarrow> decodeState \<Rightarrow> decodeState" where
  "saveError e d = (case snd d of None \<Rightarrow> (fst d, Some e) | Some _ \<Rightarrow> d)"

text \<open>
  A value stored in a string field, and in an int field (\<^verbatim>\<open>literalStore\<close>). A
  string is stored with its bytes coerced to valid UTF-8, as \<^verbatim>\<open>unquote\<close> leaves
  them; \<^verbatim>\<open>null\<close> "has no effect" on a string or an int; a value of another kind is
  a type error, and so is an integer literal out of the range of \<^verbatim>\<open>int\<close>.
\<close>

fun storeString :: "string \<Rightarrow> (string \<Rightarrow> Asset \<Rightarrow> Asset) \<Rightarrow> json \<Rightarrow> decodeState \<Rightarrow> decodeState" where
  "storeString f upd (JString s) d = (upd (ToValidUTF8 s) (fst d), snd d)"
| "storeString f upd JNull d = d"
| "storeString f upd v d = saveError (UnmarshalTypeError f) d"

fun storeInt :: "string \<Rightarrow> (64 word \<Rightarrow> Asset \<Rightarrow> Asset) \<Rightarrow> json \<Rightarrow> decodeState \<Rightarrow> decodeState" where
  "storeInt f upd (JInt n) d =
     (if - (2 ^ 63) \<le> n \<and> n < 2 ^ 63 then (upd (word_of_int n) (fst d), snd d)
      else saveError (UnmarshalTypeError f) d)"
| "storeInt f upd JNull d = d"
| "storeInt f upd v d = saveError (UnmarshalTypeError f) d"

text \<open>
  One member of an object: the field is found by the folded name (the five folded
  field names differ, so a name equal to a field name finds that field). "By
  default, object keys which don't have a corresponding struct field are
  ignored"; the contract does not ask for \<^verbatim>\<open>DisallowUnknownFields\<close>.
\<close>

definition member :: "decodeState \<Rightarrow> string \<times> json \<Rightarrow> decodeState" where
  "member d kv =
     (let name = foldName (ToValidUTF8 (fst kv)); v = snd kv in
      if name = ''APPRAISEDVALUE''
        then storeInt ''AppraisedValue'' (\<lambda>n a. a\<lparr>AppraisedValue := n\<rparr>) v d
      else if name = ''COLOR'' then storeString ''Color'' (\<lambda>s a. a\<lparr>Color := s\<rparr>) v d
      else if name = ''ID'' then storeString ''ID'' (\<lambda>s a. a\<lparr>ID := s\<rparr>) v d
      else if name = ''OWNER'' then storeString ''Owner'' (\<lambda>s a. a\<lparr>Owner := s\<rparr>) v d
      else if name = ''SIZE'' then storeInt ''Size'' (\<lambda>n a. a\<lparr>Size := n\<rparr>) v d
      else d)"

text \<open>
  \<^verbatim>\<open>json.Unmarshal(data, &asset)\<close>: the error, and the asset the pointer leads
  to afterwards. Bytes that are no JSON text are a syntax error and nothing is
  decoded; \<^verbatim>\<open>null\<close> leaves the asset alone; an object is decoded member by member;
  any other value is a type error.
\<close>

definition Unmarshal :: "bytes \<Rightarrow> Asset \<Rightarrow> error option \<times> Asset" where
  "Unmarshal data asset =
     (case data of
        NotJSON \<Rightarrow> (Some SyntaxError, asset)
      | JSON JNull \<Rightarrow> (None, asset)
      | JSON (JObject ms) \<Rightarrow> (let d = foldl member (asset, None) ms in (snd d, fst d))
      | JSON _ \<Rightarrow> (Some (UnmarshalTypeError []), asset))"

text \<open>\<^verbatim>\<open>var asset Asset\<close>: the zero value.\<close>

definition zeroAsset :: Asset where
  "zeroAsset = \<lparr>AppraisedValue = 0, Color = [], ID = [], Owner = [], Size = 0\<rparr>"

subsection \<open>The stub of the transaction context\<close>

text \<open>
  The world state maps a key to the bytes stored under it; \<open>None\<close> is the \<^verbatim>\<open>nil\<close>
  slice that \<^verbatim>\<open>GetState\<close> returns for a key without a value (the ledger keeps no
  empty value: a key has a value of at least one byte or none). The stub is not
  part of the repository: whether it refuses a call is left open by three fields,
  each giving the error (if any) with which the stub answers that call. A refused
  write or delete leaves the world state as it was.

  A function of the contract runs as one transaction, and none reads a key after
  writing it; what \<^verbatim>\<open>PutState\<close> and \<^verbatim>\<open>DelState\<close> propose takes effect when the
  transaction is committed. The stub a function returns is the one the next
  transaction finds.
\<close>

record stub =
  state :: "string \<Rightarrow> bytes option"
  get_fault :: "string \<Rightarrow> error option"
  put_fault :: "string \<Rightarrow> bytes \<Rightarrow> error option"
  del_fault :: "string \<Rightarrow> error option"

definition GetState :: "stub \<Rightarrow> string \<Rightarrow> error + bytes option" where
  "GetState ctx key = (case get_fault ctx key of Some err \<Rightarrow> Inl err | None \<Rightarrow> Inr (state ctx key))"

definition PutState :: "stub \<Rightarrow> string \<Rightarrow> bytes \<Rightarrow> error option \<times> stub" where
  "PutState ctx key val =
     (case put_fault ctx key val of
        Some err \<Rightarrow> (Some err, ctx)
      | None \<Rightarrow> (None, ctx\<lparr>state := (state ctx)(key \<mapsto> val)\<rparr>))"

definition DelState :: "stub \<Rightarrow> string \<Rightarrow> error option \<times> stub" where
  "DelState ctx key =
     (case del_fault ctx key of
        Some err \<Rightarrow> (Some err, ctx)
      | None \<Rightarrow> (None, ctx\<lparr>state := (state ctx)(key := None)\<rparr>))"

subsection \<open>The contract\<close>

text \<open>\<^verbatim>\<open>AssetExists\<close>, lines 235-245.\<close>

definition AssetExists :: "stub \<Rightarrow> string \<Rightarrow> error + bool" where
  "AssetExists ctx id' =
     (case GetState ctx id' of
        Inl err \<Rightarrow> Inl (Errorf ''Failed to read world state for asset with id %v'' [ArgString id'])
      | Inr assetJSON \<Rightarrow> Inr (assetJSON \<noteq> None))"

text \<open>The slice \<^verbatim>\<open>assets\<close> of \<^verbatim>\<open>InitLedger\<close>, lines 27-34.\<close>

definition assets :: "Asset list" where
  "assets =
     [\<lparr>AppraisedValue = 300, Color = ''blue'', ID = ''asset1'', Owner = ''Tomoko'', Size = 5\<rparr>,
      \<lparr>AppraisedValue = 400, Color = ''red'', ID = ''asset2'', Owner = ''Brad'', Size = 5\<rparr>,
      \<lparr>AppraisedValue = 500, Color = ''green'', ID = ''asset3'', Owner = ''Jin Soo'', Size = 10\<rparr>,
      \<lparr>AppraisedValue = 600, Color = ''yellow'', ID = ''asset4'', Owner = ''Max'', Size = 10\<rparr>,
      \<lparr>AppraisedValue = 700, Color = ''black'', ID = ''asset5'', Owner = ''Adriana'', Size = 15\<rparr>,
      \<lparr>AppraisedValue = 800, Color = ''white'', ID = ''asset6'', Owner = ''Michel'', Size = 15\<rparr>]"

text \<open>The loop of \<^verbatim>\<open>InitLedger\<close>, lines 37-57, over the assets still to be written.\<close>

fun InitLedger_loop :: "stub \<Rightarrow> Asset list \<Rightarrow> error option \<times> stub" where
  "InitLedger_loop ctx [] = (None, ctx)"
| "InitLedger_loop ctx (asset # rest) =
     (case Marshal asset of
        Inl err \<Rightarrow> (Some err, ctx)
      | Inr assetJSON \<Rightarrow>
          (case PutState ctx (ID asset) assetJSON of
             (Some err, ctx') \<Rightarrow>
               (Some (Errorf ''Failed to put to world state. %v'' [ArgError err]), ctx')
           | (None, ctx') \<Rightarrow> InitLedger_loop ctx' rest))"

definition InitLedger :: "stub \<Rightarrow> error option \<times> stub" where
  "InitLedger ctx = InitLedger_loop ctx assets"

text \<open>\<^verbatim>\<open>CreateAsset\<close>, lines 63-97.\<close>

definition CreateAsset ::
  "stub \<Rightarrow> string \<Rightarrow> string \<Rightarrow> 64 word \<Rightarrow> string \<Rightarrow> 64 word \<Rightarrow> error option \<times> stub" where
  "CreateAsset ctx id' color size' owner appraisedValue =
     (case AssetExists ctx id' of
        Inl err \<Rightarrow> (Some err, ctx)
      | Inr exists \<Rightarrow>
          if exists then (Some (Errorf ''The asset with id %s already exists'' [ArgString id']), ctx)
          else
            (let asset = \<lparr>AppraisedValue = appraisedValue, Color = color, ID = id',
                          Owner = owner, Size = size'\<rparr>
             in case Marshal asset of
                  Inl err \<Rightarrow> (Some err, ctx)
                | Inr assetJSON \<Rightarrow> PutState ctx id' assetJSON))"

text \<open>\<^verbatim>\<open>ReadAsset\<close>, lines 100-121. It calls neither \<^verbatim>\<open>PutState\<close> nor \<^verbatim>\<open>DelState\<close>.\<close>

definition ReadAsset :: "stub \<Rightarrow> string \<Rightarrow> error + Asset" where
  "ReadAsset ctx id' =
     (case GetState ctx id' of
        Inl err \<Rightarrow> Inl (Errorf ''Failed to read world state for asset with id %v'' [ArgString id'])
      | Inr None \<Rightarrow> Inl (Errorf ''The asset with id %v does not exist'' [ArgString id'])
      | Inr (Some assetJSON) \<Rightarrow>
          (case Unmarshal assetJSON zeroAsset of
             (Some err, asset) \<Rightarrow> Inl err
           | (None, asset) \<Rightarrow> Inr asset))"

text \<open>\<^verbatim>\<open>UpdateAsset\<close>, lines 124-158.\<close>

definition UpdateAsset ::
  "stub \<Rightarrow> string \<Rightarrow> string \<Rightarrow> 64 word \<Rightarrow> string \<Rightarrow> 64 word \<Rightarrow> error option \<times> stub" where
  "UpdateAsset ctx id' color size' owner appraisedValue =
     (case AssetExists ctx id' of
        Inl err \<Rightarrow> (Some err, ctx)
      | Inr exists \<Rightarrow>
          if \<not> exists then (Some (Errorf ''The asset with id %s does not exist'' [ArgString id']), ctx)
          else
            (let updatedAsset = \<lparr>AppraisedValue = appraisedValue, Color = color, ID = id',
                                 Owner = owner, Size = size'\<rparr>
             in case Marshal updatedAsset of
                  Inl err \<Rightarrow> (Some err, ctx)
                | Inr updatedAssetJSON \<Rightarrow> PutState ctx id' updatedAssetJSON))"

text \<open>\<^verbatim>\<open>DeleteAsset\<close>, lines 161-177.\<close>

definition DeleteAsset :: "stub \<Rightarrow> string \<Rightarrow> error option \<times> stub" where
  "DeleteAsset ctx id' =
     (case AssetExists ctx id' of
        Inl err \<Rightarrow> (Some err, ctx)
      | Inr exists \<Rightarrow>
          if \<not> exists then (Some (Errorf ''The asset with id %s does not exist'' [ArgString id']), ctx)
          else DelState ctx id')"

text \<open>\<^verbatim>\<open>TransferAsset\<close>, lines 179-198.\<close>

definition TransferAsset :: "stub \<Rightarrow> string \<Rightarrow> string \<Rightarrow> error option \<times> stub" where
  "TransferAsset ctx id' newOwner =
     (case ReadAsset ctx id' of
        Inl err \<Rightarrow> (Some err, ctx)
      | Inr transferedAsset \<Rightarrow>
          (case Marshal (transferedAsset\<lparr>Owner := newOwner\<rparr>) of
             Inl err \<Rightarrow> (Some err, ctx)
           | Inr transferedAssetJSON \<Rightarrow> PutState ctx id' transferedAssetJSON))"

subsection \<open>Auxiliary notions\<close>

text \<open>The three string fields of an asset are well-formed UTF-8.\<close>

definition validStrings :: "Asset \<Rightarrow> bool" where
  "validStrings a \<longleftrightarrow> ValidString (Color a) \<and> ValidString (ID a) \<and> ValidString (Owner a)"

text \<open>
  The stub accepts the write of an asset under its ID; the world state after the
  writes of a list of assets, in order.
\<close>

definition accepted :: "stub \<Rightarrow> Asset \<Rightarrow> bool" where
  "accepted ctx a \<longleftrightarrow> put_fault ctx (ID a) (JSON (encodeAsset a)) = None"

definition written :: "(string \<Rightarrow> bytes option) \<Rightarrow> Asset list \<Rightarrow> (string \<Rightarrow> bytes option)" where
  "written m as = foldl (\<lambda>m a. m(ID a \<mapsto> JSON (encodeAsset a))) m as"



text \<open>
  The key/ID agreement of a world state: every value decodes to an asset whose
  \<open>ID\<close> is the key the value is stored under.
\<close>

definition keyed :: "stub \<Rightarrow> bool" where
  "keyed ctx \<longleftrightarrow>
     (\<forall>key val. state ctx key = Some val \<longrightarrow>
        (\<exists>a. Unmarshal val zeroAsset = (None, a) \<and> ID a = key))"

subsection \<open>Stubs for the examples\<close>

text \<open>A stub that refuses nothing, over an empty world state.\<close>

definition emptyStub :: stub where
  "emptyStub = \<lparr>state = (\<lambda>key. None), get_fault = (\<lambda>key. None),
                 put_fault = (\<lambda>key val. None), del_fault = (\<lambda>key. None)\<rparr>"

text \<open>The same stub, refusing every write under one key.\<close>

definition refusingPut :: "string \<Rightarrow> error \<Rightarrow> stub" where
  "refusingPut key err = emptyStub\<lparr>put_fault := (\<lambda>k val. if k = key then Some err else None)\<rparr>"


text \<open>A world state with one record, and nothing refused.\<close>

definition oneAsset :: "string \<Rightarrow> bytes \<Rightarrow> stub" where
  "oneAsset key val = emptyStub\<lparr>state := (\<lambda>k. if k = key then Some val else None)\<rparr>"

section \<open>Properties\<close>

subsection \<open>UTF-8 and JSON\<close>

lemma accept_length: "accept rs cs \<Longrightarrow> length rs \<le> length cs"
  by (induction rs cs rule: accept.induct) auto

lemma accept_take: "accept rs cs \<Longrightarrow> accept rs (take (length rs) cs @ xs)"
  by (induction rs cs rule: accept.induct) auto

lemma rune_size_le: "rune_size s \<le> length s"
  by (cases s) (auto split: option.splits dest: accept_length)

lemma rune_size_take:
  "rune_size s \<noteq> 0 \<Longrightarrow> rune_size (take (rune_size s) s @ xs) = rune_size s"
  by (cases s) (auto split: option.splits if_splits simp: accept_take)

lemma rune_size_RuneError: "rune_size (RuneError @ xs) = 3"
  by (simp add: RuneError_def tail_ranges_def)

lemma ValidString_rune_append:
  assumes "rune_size s \<noteq> 0"
  shows "ValidString (take (rune_size s) s @ xs) = ValidString xs"
proof -
  let ?n = "rune_size s"
  have "take ?n s @ xs \<noteq> []"
  proof (cases s)
    case Nil
    with assms show ?thesis by simp
  next
    case (Cons a as)
    with assms show ?thesis by (simp del: rune_size.simps)
  qed
  then obtain c cs where s: "take ?n s @ xs = c # cs"
    by (cases "take ?n s @ xs") simp_all
  have n: "rune_size (c # cs) = ?n"
    using rune_size_take [OF assms, of xs] s by simp
  have "length (take ?n s) = ?n"
    using rune_size_le [of s] by simp
  then have "drop ?n (take ?n s @ xs) = xs"
    by simp
  then show ?thesis
    using assms n s by simp
qed

lemma ValidString_RuneError_append: "ValidString (RuneError @ xs) = ValidString xs"
proof -
  have "rune_size (RuneError @ xs) = 3" by (rule rune_size_RuneError)
  moreover have "drop 3 (RuneError @ xs) = xs" by (simp add: RuneError_def)
  moreover obtain c cs where "RuneError @ xs = c # cs" by (auto simp: RuneError_def)
  ultimately show ?thesis by simp
qed

lemma ValidString_ToValidUTF8: "ValidString (ToValidUTF8 s)"
proof (induction s rule: ToValidUTF8.induct)
  case 1
  show ?case by simp
next
  case (2 c cs)
  show ?case
  proof (cases "rune_size (c # cs) = 0")
    case True
    with 2 show ?thesis by (simp add: ValidString_RuneError_append del: rune_size.simps)
  next
    case False
    with 2 show ?thesis
      using ValidString_rune_append [of "c # cs"] by (simp del: rune_size.simps)
  qed
qed

lemma ToValidUTF8_ident: "ValidString s \<Longrightarrow> ToValidUTF8 s = s"
proof (induction s rule: ValidString.induct)
  case 1
  show ?case by simp
next
  case (2 c cs)
  then show ?case
    by (cases "rune_size (c # cs) = 0") (simp_all del: rune_size.simps)
qed

lemma ToValidUTF8_idem: "ToValidUTF8 (ToValidUTF8 s) = ToValidUTF8 s"
  by (rule ToValidUTF8_ident) (rule ValidString_ToValidUTF8)

lemma names:
  "foldName (ToValidUTF8 ''AppraisedValue'') = ''APPRAISEDVALUE''"
  "foldName (ToValidUTF8 ''Color'') = ''COLOR''"
  "foldName (ToValidUTF8 ''ID'') = ''ID''"
  "foldName (ToValidUTF8 ''Owner'') = ''OWNER''"
  "foldName (ToValidUTF8 ''Size'') = ''SIZE''"
  by code_simp+

lemma word_rg: "- (2 ^ 63) \<le> sint (w :: 64 word) \<and> sint w < 2 ^ 63"
  using sint_ge [of w] sint_lt [of w] by simp


lemma member_AppraisedValue:
  "member d (''AppraisedValue'', v) = storeInt ''AppraisedValue'' (\<lambda>n a. a\<lparr>AppraisedValue := n\<rparr>) v d"
  by (simp add: member_def names del: ToValidUTF8.simps foldName.simps)

lemma member_Color:
  "member d (''Color'', v) = storeString ''Color'' (\<lambda>s a. a\<lparr>Color := s\<rparr>) v d"
  by (simp add: member_def names del: ToValidUTF8.simps foldName.simps)

lemma member_ID:
  "member d (''ID'', v) = storeString ''ID'' (\<lambda>s a. a\<lparr>ID := s\<rparr>) v d"
  by (simp add: member_def names del: ToValidUTF8.simps foldName.simps)

lemma member_Owner:
  "member d (''Owner'', v) = storeString ''Owner'' (\<lambda>s a. a\<lparr>Owner := s\<rparr>) v d"
  by (simp add: member_def names del: ToValidUTF8.simps foldName.simps)

lemma member_Size:
  "member d (''Size'', v) = storeInt ''Size'' (\<lambda>n a. a\<lparr>Size := n\<rparr>) v d"
  by (simp add: member_def names del: ToValidUTF8.simps foldName.simps)

lemma storeInt_sint:
  "storeInt f upd (JInt (sint (w :: 64 word))) d = (upd w (fst d), snd d)"
  using word_rg [of w] by simp

lemma Unmarshal_encode:
  "Unmarshal (JSON (encodeAsset a)) b =
     (None, \<lparr>AppraisedValue = AppraisedValue a, Color = ToValidUTF8 (Color a),
             ID = ToValidUTF8 (ID a), Owner = ToValidUTF8 (Owner a), Size = Size a\<rparr>)"
  by (cases b)
     (simp add: Unmarshal_def encodeAsset_def member_AppraisedValue member_Color member_ID
        member_Owner member_Size storeInt_sint ToValidUTF8_idem
        del: ToValidUTF8.simps foldName.simps storeInt.simps)

subsection \<open>Reading back what was written\<close>

lemma ReadAsset_put:
  assumes "get_fault ctx key = None"
  shows "ReadAsset (ctx\<lparr>state := (state ctx)(key \<mapsto> JSON (encodeAsset a))\<rparr>) key =
           Inr \<lparr>AppraisedValue = AppraisedValue a, Color = ToValidUTF8 (Color a),
                ID = ToValidUTF8 (ID a), Owner = ToValidUTF8 (Owner a), Size = Size a\<rparr>"
  using assms by (simp add: ReadAsset_def GetState_def Unmarshal_encode)

lemma CreateAsset_absent:
  assumes "state ctx id' = None" and "get_fault ctx id' = None"
    and "\<forall>val. put_fault ctx id' val = None"
  shows "CreateAsset ctx id' color size' owner appraisedValue =
           (None, ctx\<lparr>state := (state ctx)(id' \<mapsto> JSON (encodeAsset
              \<lparr>AppraisedValue = appraisedValue, Color = color, ID = id', Owner = owner,
               Size = size'\<rparr>))\<rparr>)"
  using assms
  by (simp add: CreateAsset_def AssetExists_def GetState_def Marshal_def PutState_def)

lemma ValidString_examples:
  "ValidString ''a''" "ValidString ''red''" "ValidString ''Ann''"
  by code_simp+

lemma RuneError_ne: "RuneError \<noteq> [CHR 0xFF]"
  by (simp add: RuneError_def)

lemma ToValidUTF8_FF: "ToValidUTF8 [CHR 0xFF] = RuneError"
  by (simp add: tail_ranges_def)

subsection \<open>C1: create, then read\<close>

text \<open>
  C1, as the code has it. Let the id have no record in the world state, let the
  stub refuse neither the read nor the write of the id, and let id, color and
  owner be well-formed UTF-8. Then \<^verbatim>\<open>CreateAsset\<close> returns no error, and \<^verbatim>\<open>ReadAsset\<close>
  on the same id afterwards returns an asset whose five fields are the five
  arguments.
\<close>

theorem CreateAsset_then_ReadAsset:
  assumes "state ctx id' = None" and "get_fault ctx id' = None"
    and "\<forall>val. put_fault ctx id' val = None"
    and "ValidString id'" and "ValidString color" and "ValidString owner"
  shows "fst (CreateAsset ctx id' color size' owner appraisedValue) = None \<and>
         ReadAsset (snd (CreateAsset ctx id' color size' owner appraisedValue)) id' =
           Inr \<lparr>AppraisedValue = appraisedValue, Color = color, ID = id', Owner = owner,
                Size = size'\<rparr>"
  using assms by (simp add: CreateAsset_absent ReadAsset_put ToValidUTF8_ident)

theorem CreateAsset_then_ReadAsset_witness:
  "fst (CreateAsset emptyStub ''a'' ''red'' 7 ''Ann'' 100) = None \<and>
   ReadAsset (snd (CreateAsset emptyStub ''a'' ''red'' 7 ''Ann'' 100)) ''a'' =
     Inr \<lparr>AppraisedValue = 100, Color = ''red'', ID = ''a'', Owner = ''Ann'', Size = 7\<rparr>"
  by (rule CreateAsset_then_ReadAsset)
     (simp_all add: emptyStub_def ValidString_examples del: ValidString.simps)

text \<open>
  C1 as it is stated fails for a string that is not well-formed UTF-8:
  \<^verbatim>\<open>json.Marshal\<close> writes U+FFFD for the byte FF, and the color read back is not the
  color that was passed.
\<close>

theorem CreateAsset_then_ReadAsset_ill_formed:
  "state emptyStub ''a'' = None \<and>
   fst (CreateAsset emptyStub ''a'' [CHR 0xFF] 7 ''Ann'' 100) = None \<and>
   ReadAsset (snd (CreateAsset emptyStub ''a'' [CHR 0xFF] 7 ''Ann'' 100)) ''a'' \<noteq>
     Inr \<lparr>AppraisedValue = 100, Color = [CHR 0xFF], ID = ''a'', Owner = ''Ann'', Size = 7\<rparr>"
proof -
  have "CreateAsset emptyStub ''a'' [CHR 0xFF] 7 ''Ann'' 100 =
     (None, emptyStub\<lparr>state := (state emptyStub)(''a'' \<mapsto> JSON (encodeAsset
              \<lparr>AppraisedValue = 100, Color = [CHR 0xFF], ID = ''a'', Owner = ''Ann'',
               Size = 7\<rparr>))\<rparr>)"
    by (rule CreateAsset_absent) (simp_all add: emptyStub_def)
  moreover have "get_fault emptyStub ''a'' = None"
    by (simp add: emptyStub_def)
  ultimately show ?thesis
    by (simp add: ReadAsset_put ToValidUTF8_FF RuneError_ne del: ToValidUTF8.simps)
       (simp add: emptyStub_def)
qed

subsection \<open>C2: create on an id that has a record\<close>



subsection \<open>C3: operations on an id that has no record\<close>

text \<open>
  C3. When the world state holds no record under the id and the stub does not
  refuse the read, \<^verbatim>\<open>ReadAsset\<close>, \<^verbatim>\<open>UpdateAsset\<close>, \<^verbatim>\<open>DeleteAsset\<close> and
  \<^verbatim>\<open>TransferAsset\<close> each return the error "The asset with id ... does not exist"
  made with that id, and the three that could write return the stub as it was.
\<close>

theorem absent_id_not_found:
  assumes "state ctx id' = None" and "get_fault ctx id' = None"
  shows "ReadAsset ctx id' = Inl (Errorf ''The asset with id %v does not exist'' [ArgString id']) \<and>
         UpdateAsset ctx id' color size' owner appraisedValue =
           (Some (Errorf ''The asset with id %s does not exist'' [ArgString id']), ctx) \<and>
         DeleteAsset ctx id' =
           (Some (Errorf ''The asset with id %s does not exist'' [ArgString id']), ctx) \<and>
         TransferAsset ctx id' newOwner =
           (Some (Errorf ''The asset with id %v does not exist'' [ArgString id']), ctx)"
  using assms
  by (simp add: ReadAsset_def UpdateAsset_def DeleteAsset_def TransferAsset_def
      AssetExists_def GetState_def)

theorem absent_id_not_found_witness:
  "ReadAsset emptyStub ''a'' = Inl (Errorf ''The asset with id %v does not exist'' [ArgString ''a'']) \<and>
   UpdateAsset emptyStub ''a'' ''red'' 7 ''Ann'' 100 =
     (Some (Errorf ''The asset with id %s does not exist'' [ArgString ''a'']), emptyStub) \<and>
   DeleteAsset emptyStub ''a'' =
     (Some (Errorf ''The asset with id %s does not exist'' [ArgString ''a'']), emptyStub) \<and>
   TransferAsset emptyStub ''a'' ''Bob'' =
     (Some (Errorf ''The asset with id %v does not exist'' [ArgString ''a'']), emptyStub)"
  by (rule absent_id_not_found) (simp_all add: emptyStub_def)

subsection \<open>C4: transfer\<close>

lemma saveError_fst: "fst (saveError e d) = fst d"
  by (simp add: saveError_def split: option.splits)

lemma storeString_valid:
  assumes "\<And>s a. validStrings a \<Longrightarrow> ValidString s \<Longrightarrow> validStrings (upd s a)"
    and "validStrings (fst d)"
  shows "validStrings (fst (storeString f upd v d))"
  using assms by (cases v) (simp_all add: saveError_fst ValidString_ToValidUTF8 del: ToValidUTF8.simps)

lemma storeInt_valid:
  assumes "\<And>n a. validStrings a \<Longrightarrow> validStrings (upd n a)"
    and "validStrings (fst d)"
  shows "validStrings (fst (storeInt f upd v d))"
  using assms by (cases v) (simp_all add: saveError_fst)

lemma member_valid:
  assumes "validStrings (fst d)"
  shows "validStrings (fst (member d kv))"
proof -
  have c: "validStrings (fst (storeString f (\<lambda>s a. a\<lparr>Color := s\<rparr>) v d))" for f v
    by (rule storeString_valid) (simp_all add: validStrings_def assms [unfolded validStrings_def])
  have i: "validStrings (fst (storeString f (\<lambda>s a. a\<lparr>ID := s\<rparr>) v d))" for f v
    by (rule storeString_valid) (simp_all add: validStrings_def assms [unfolded validStrings_def])
  have o: "validStrings (fst (storeString f (\<lambda>s a. a\<lparr>Owner := s\<rparr>) v d))" for f v
    by (rule storeString_valid) (simp_all add: validStrings_def assms [unfolded validStrings_def])
  have v: "validStrings (fst (storeInt f (\<lambda>n a. a\<lparr>AppraisedValue := n\<rparr>) v d))" for f v
    by (rule storeInt_valid) (simp_all add: validStrings_def assms [unfolded validStrings_def])
  have z: "validStrings (fst (storeInt f (\<lambda>n a. a\<lparr>Size := n\<rparr>) v d))" for f v
    by (rule storeInt_valid) (simp_all add: validStrings_def assms [unfolded validStrings_def])
  show ?thesis
    unfolding member_def Let_def using c i o v z assms by simp
qed

lemma foldl_member_valid:
  "validStrings (fst d) \<Longrightarrow> validStrings (fst (foldl member d ms))"
  by (induction ms arbitrary: d) (simp_all add: member_valid)

lemma Unmarshal_valid:
  assumes "Unmarshal data zeroAsset = (None, a)"
  shows "validStrings a"
proof -
  have z: "validStrings zeroAsset" by (simp add: validStrings_def zeroAsset_def)
  show ?thesis
  proof (cases data)
    case NotJSON
    with assms show ?thesis by (simp add: Unmarshal_def)
  next
    case (JSON j)
    show ?thesis
    proof (cases j)
      case (JObject ms)
      have "validStrings (fst (foldl member (zeroAsset, None) ms))"
        by (rule foldl_member_valid) (simp add: z)
      with assms JSON JObject show ?thesis by (auto simp: Unmarshal_def Let_def)
    qed (use assms JSON z in \<open>auto simp: Unmarshal_def\<close>)
  qed
qed








subsection \<open>C5: update, then read\<close>



lemma UpdateAsset_present:
  assumes "state ctx id' = Some val" and "get_fault ctx id' = None"
    and "\<forall>val. put_fault ctx id' val = None"
  shows "UpdateAsset ctx id' color size' owner appraisedValue =
           (None, ctx\<lparr>state := (state ctx)(id' \<mapsto> JSON (encodeAsset
              \<lparr>AppraisedValue = appraisedValue, Color = color, ID = id', Owner = owner,
               Size = size'\<rparr>))\<rparr>)"
  using assms
  by (simp add: UpdateAsset_def AssetExists_def GetState_def Marshal_def PutState_def)




subsection \<open>The loop of InitLedger\<close>

lemma accepted_state [simp]: "accepted (ctx\<lparr>state := m\<rparr>) = accepted ctx"
  by (simp add: accepted_def fun_eq_iff)

lemma written_Nil [simp]: "written m [] = m"
  by (simp add: written_def)

lemma written_Cons [simp]: "written m (a # as) = written (m(ID a \<mapsto> JSON (encodeAsset a))) as"
  by (simp add: written_def)

lemma InitLedger_loop_run:
  "InitLedger_loop ctx as =
     ((case dropWhile (accepted ctx) as of
         [] \<Rightarrow> None
       | a # rest \<Rightarrow> Some (Errorf ''Failed to put to world state. %v''
                     [ArgError (the (put_fault ctx (ID a) (JSON (encodeAsset a))))])),
      ctx\<lparr>state := written (state ctx) (takeWhile (accepted ctx) as)\<rparr>)"
proof (induction as arbitrary: ctx)
  case Nil
  show ?case by simp
next
  case (Cons a as)
  show ?case
  proof (cases "put_fault ctx (ID a) (JSON (encodeAsset a))")
    case None
    then show ?thesis
      by (simp add: Marshal_def PutState_def Cons accepted_def [of ctx a] cong: list.case_cong)
  next
    case (Some err)
    then show ?thesis
      by (simp add: Marshal_def PutState_def accepted_def [of ctx a])
  qed
qed







subsection \<open>C6: InitLedger twice\<close>



subsection \<open>C7: a refused write in InitLedger\<close>

text \<open>
  C7, as the code has it. Let the stub accept the writes of the assets before
  \<open>a\<close> in the slice and refuse the write of \<open>a\<close> with the error \<open>err\<close>. Then
  \<^verbatim>\<open>InitLedger\<close> stops there: the world state it leaves has the assets before \<open>a\<close>
  written and neither \<open>a\<close> nor any asset after it. The error it returns is the
  new error \<^verbatim>\<open>fmt.Errorf("Failed to put to world state. %v", err)\<close>.
\<close>

theorem InitLedger_write_refused:
  assumes "assets = pre @ a # post"
    and "\<forall>b\<in>set pre. put_fault ctx (ID b) (JSON (encodeAsset b)) = None"
    and "put_fault ctx (ID a) (JSON (encodeAsset a)) = Some err"
  shows "InitLedger ctx =
           (Some (Errorf ''Failed to put to world state. %v'' [ArgError err]),
            ctx\<lparr>state := foldl (\<lambda>m b. m(ID b \<mapsto> JSON (encodeAsset b))) (state ctx) pre\<rparr>)"
proof -
  have "\<forall>b\<in>set pre. accepted ctx b" and "\<not> accepted ctx a"
    using assms(2,3) by (simp_all add: accepted_def)
  then have "dropWhile (accepted ctx) (pre @ a # post) = a # post"
    and "takeWhile (accepted ctx) (pre @ a # post) = pre"
    by (simp_all add: dropWhile_append3 takeWhile_append2 takeWhile_tail)
  then show ?thesis
    using assms(3) by (simp add: InitLedger_def assms(1) InitLedger_loop_run written_def)
qed

theorem InitLedger_write_refused_witness:
  "InitLedger (refusingPut ''asset3'' (StubError ''no quorum'')) =
     (Some (Errorf ''Failed to put to world state. %v'' [ArgError (StubError ''no quorum'')]),
      (refusingPut ''asset3'' (StubError ''no quorum''))\<lparr>state :=
         foldl (\<lambda>m b. m(ID b \<mapsto> JSON (encodeAsset b)))
           (state (refusingPut ''asset3'' (StubError ''no quorum''))) (take 2 assets)\<rparr>)"
  by (rule InitLedger_write_refused [where a = "assets ! 2" and post = "drop 3 assets"])
     (simp_all add: assets_def refusingPut_def emptyStub_def)

text \<open>
  C7 as it is stated fails: the error returned is not the error of the stub, it
  is a new error that has the stub's error as the argument of its format.
\<close>

theorem InitLedger_write_refused_wraps:
  "put_fault (refusingPut ''asset1'' (StubError ''no quorum'')) ''asset1''
     (JSON (encodeAsset (assets ! 0))) = Some (StubError ''no quorum'') \<and>
   fst (InitLedger (refusingPut ''asset1'' (StubError ''no quorum''))) =
     Some (Errorf ''Failed to put to world state. %v'' [ArgError (StubError ''no quorum'')]) \<and>
   fst (InitLedger (refusingPut ''asset1'' (StubError ''no quorum''))) \<noteq>
     Some (StubError ''no quorum'')"
  by (simp add: InitLedger_def assets_def Marshal_def PutState_def refusingPut_def emptyStub_def)

subsection \<open>C8: which records ReadAsset returns\<close>
















subsection \<open>C9: the existence check\<close>



subsection \<open>C10: every record is stored under its ID\<close>

lemma keyed_put:
  assumes "keyed ctx" and "ValidString (ID a)"
  shows "keyed (ctx\<lparr>state := (state ctx)(ID a \<mapsto> JSON (encodeAsset a))\<rparr>)"
  using assms by (auto simp add: keyed_def Unmarshal_encode ToValidUTF8_ident)

lemma keyed_put':
  assumes "keyed ctx" and "ID a = key" and "ValidString key"
  shows "keyed (ctx\<lparr>state := (state ctx)(key \<mapsto> JSON (encodeAsset a))\<rparr>)"
  using keyed_put [of ctx a] assms by simp

lemma keyed_written:
  assumes "keyed ctx" and "\<forall>a\<in>set as. ValidString (ID a)"
  shows "keyed (ctx\<lparr>state := written (state ctx) as\<rparr>)"
  using assms
proof (induction as arbitrary: ctx)
  case Nil
  then show ?case by simp
next
  case (Cons a as)
  let ?ctx = "ctx\<lparr>state := (state ctx)(ID a \<mapsto> JSON (encodeAsset a))\<rparr>"
  have "ValidString (ID a)" and rest: "\<forall>a\<in>set as. ValidString (ID a)"
    using Cons.prems(2) by (simp_all del: ValidString.simps)
  with Cons.prems(1) have "keyed ?ctx"
    by (intro keyed_put)
  then have "keyed (?ctx\<lparr>state := written (state ?ctx) as\<rparr>)"
    using rest by (rule Cons.IH)
  moreover have "?ctx\<lparr>state := written (state ?ctx) as\<rparr> =
                 ctx\<lparr>state := written (state ctx) (a # as)\<rparr>"
    by simp
  ultimately show ?case by (simp only:)
qed

lemma keyed_delete: "keyed ctx \<Longrightarrow> keyed (ctx\<lparr>state := (state ctx)(key := None)\<rparr>)"
  by (simp add: keyed_def)

lemma assets_valid: "\<forall>a\<in>set assets. ValidString (ID a)"
proof -
  have "ValidString ''asset1''" "ValidString ''asset2''" "ValidString ''asset3''"
    "ValidString ''asset4''" "ValidString ''asset5''" "ValidString ''asset6''"
    by code_simp+
  then show ?thesis by (simp add: assets_def del: ValidString.simps)
qed

lemma keyed_InitLedger:
  assumes "keyed ctx"
  shows "keyed (snd (InitLedger ctx))"
proof -
  have "\<forall>a\<in>set (takeWhile (accepted ctx) assets). ValidString (ID a)"
    using assets_valid by (blast dest: set_takeWhileD)
  with assms have "keyed (ctx\<lparr>state := written (state ctx) (takeWhile (accepted ctx) assets)\<rparr>)"
    by (rule keyed_written)
  then show ?thesis
    by (simp only: InitLedger_def InitLedger_loop_run snd_conv)
qed

lemma keyed_ValidString:
  assumes "keyed ctx" and "state ctx key = Some val"
  shows "ValidString key"
proof -
  from assms obtain a where "Unmarshal val zeroAsset = (None, a)" and "ID a = key"
    by (auto simp: keyed_def)
  then show ?thesis using Unmarshal_valid [of val a] by (simp add: validStrings_def)
qed

lemma CreateAsset_outcome:
  "snd (CreateAsset ctx id' color size' owner appraisedValue) = ctx \<or>
   (\<exists>val. put_fault ctx id' val = None) \<and>
   snd (CreateAsset ctx id' color size' owner appraisedValue) =
     ctx\<lparr>state := (state ctx)(id' \<mapsto> JSON (encodeAsset
        \<lparr>AppraisedValue = appraisedValue, Color = color, ID = id', Owner = owner,
         Size = size'\<rparr>))\<rparr>"
  by (auto simp add: CreateAsset_def AssetExists_def GetState_def Marshal_def PutState_def
      Let_def split: option.splits)

lemma UpdateAsset_outcome:
  "snd (UpdateAsset ctx id' color size' owner appraisedValue) = ctx \<or>
   state ctx id' \<noteq> None \<and>
   snd (UpdateAsset ctx id' color size' owner appraisedValue) =
     ctx\<lparr>state := (state ctx)(id' \<mapsto> JSON (encodeAsset
        \<lparr>AppraisedValue = appraisedValue, Color = color, ID = id', Owner = owner,
         Size = size'\<rparr>))\<rparr>"
  by (simp add: UpdateAsset_def AssetExists_def GetState_def Marshal_def PutState_def
      Let_def split: option.splits)

lemma DeleteAsset_outcome:
  "snd (DeleteAsset ctx id') = ctx \<or>
   snd (DeleteAsset ctx id') = ctx\<lparr>state := (state ctx)(id' := None)\<rparr>"
  by (simp add: DeleteAsset_def AssetExists_def GetState_def DelState_def
      split: option.splits)

lemma keyed_CreateAsset:
  assumes "keyed ctx" and "ValidString id' \<or> (\<forall>val. put_fault ctx id' val \<noteq> None)"
  shows "keyed (snd (CreateAsset ctx id' color size' owner appraisedValue))"
  using CreateAsset_outcome [of ctx id' color size' owner appraisedValue]
proof
  assume "snd (CreateAsset ctx id' color size' owner appraisedValue) = ctx"
  with assms(1) show ?thesis by simp
next
  assume "(\<exists>val. put_fault ctx id' val = None) \<and>
   snd (CreateAsset ctx id' color size' owner appraisedValue) =
     ctx\<lparr>state := (state ctx)(id' \<mapsto> JSON (encodeAsset
        \<lparr>AppraisedValue = appraisedValue, Color = color, ID = id', Owner = owner,
         Size = size'\<rparr>))\<rparr>"
  then have p: "\<exists>val. put_fault ctx id' val = None"
    and c: "snd (CreateAsset ctx id' color size' owner appraisedValue) =
     ctx\<lparr>state := (state ctx)(id' \<mapsto> JSON (encodeAsset
        \<lparr>AppraisedValue = appraisedValue, Color = color, ID = id', Owner = owner,
         Size = size'\<rparr>))\<rparr>"
    by simp_all
  from p assms(2) have "ValidString id'" by blast
  then show ?thesis
    unfolding c using assms(1) by (intro keyed_put') simp_all
qed

lemma keyed_UpdateAsset:
  assumes "keyed ctx"
  shows "keyed (snd (UpdateAsset ctx id' color size' owner appraisedValue))"
  using UpdateAsset_outcome [of ctx id' color size' owner appraisedValue]
proof
  assume "snd (UpdateAsset ctx id' color size' owner appraisedValue) = ctx"
  with assms(1) show ?thesis by simp
next
  assume "state ctx id' \<noteq> None \<and>
   snd (UpdateAsset ctx id' color size' owner appraisedValue) =
     ctx\<lparr>state := (state ctx)(id' \<mapsto> JSON (encodeAsset
        \<lparr>AppraisedValue = appraisedValue, Color = color, ID = id', Owner = owner,
         Size = size'\<rparr>))\<rparr>"
  then obtain val where v: "state ctx id' = Some val"
    and c: "snd (UpdateAsset ctx id' color size' owner appraisedValue) =
     ctx\<lparr>state := (state ctx)(id' \<mapsto> JSON (encodeAsset
        \<lparr>AppraisedValue = appraisedValue, Color = color, ID = id', Owner = owner,
         Size = size'\<rparr>))\<rparr>"
    by auto
  have "ValidString id'" using assms v by (rule keyed_ValidString)
  then show ?thesis
    unfolding c using assms by (intro keyed_put') simp_all
qed

lemma keyed_DeleteAsset: "keyed ctx \<Longrightarrow> keyed (snd (DeleteAsset ctx id'))"
  using DeleteAsset_outcome [of ctx id'] by (auto simp: keyed_delete)

lemma keyed_TransferAsset:
  assumes "keyed ctx"
  shows "keyed (snd (TransferAsset ctx id' newOwner))"
proof (cases "ReadAsset ctx id'")
  case (Inl err)
  with assms show ?thesis by (simp add: TransferAsset_def)
next
  case (Inr a)
  then obtain val where v: "state ctx id' = Some val" "Unmarshal val zeroAsset = (None, a)"
    by (auto simp: ReadAsset_def GetState_def split: option.splits prod.splits)
  from assms v(1) obtain b where "Unmarshal val zeroAsset = (None, b)" and "ID b = id'"
    unfolding keyed_def by blast
  with v(2) have "ID a = id'" by simp
  moreover have "ValidString id'" using assms v(1) by (rule keyed_ValidString)
  ultimately have "keyed (ctx\<lparr>state := (state ctx)(id' \<mapsto> JSON (encodeAsset (a\<lparr>Owner := newOwner\<rparr>)))\<rparr>)"
    using assms by (intro keyed_put') simp_all
  with assms Inr show ?thesis
    by (simp add: TransferAsset_def Marshal_def PutState_def split: option.splits)
qed

lemma keyed_emptyStub: "keyed emptyStub"
  by (simp add: keyed_def emptyStub_def)

lemma keyed_oneAsset:
  "keyed (oneAsset ''a'' (JSON (encodeAsset
     \<lparr>AppraisedValue = 100, Color = ''red'', ID = ''a'', Owner = ''Ann'', Size = 7\<rparr>)))"
proof -
  have "keyed (emptyStub\<lparr>state := (state emptyStub)(''a'' \<mapsto> JSON (encodeAsset
     \<lparr>AppraisedValue = 100, Color = ''red'', ID = ''a'', Owner = ''Ann'', Size = 7\<rparr>))\<rparr>)"
    using keyed_emptyStub by (rule keyed_put') (simp_all add: ValidString_examples del: ValidString.simps)
  moreover have "emptyStub\<lparr>state := (state emptyStub)(''a'' \<mapsto> val)\<rparr> = oneAsset ''a'' val" for val
    by (simp add: oneAsset_def emptyStub_def fun_eq_iff)
  ultimately show ?thesis by (simp only:)
qed

lemma ValidString_b: "ValidString ''b''"
  by code_simp

lemma oneAsset_succeeds:
  "fst (InitLedger (oneAsset ''a'' val)) = None"
  "fst (CreateAsset (oneAsset ''a'' val) ''b'' ''blue'' 1 ''Bob'' 2) = None"
  "fst (UpdateAsset (oneAsset ''a'' val) ''a'' ''blue'' 1 ''Bob'' 2) = None"
  "fst (DeleteAsset (oneAsset ''a'' val) ''a'') = None"
  "fst (TransferAsset (oneAsset ''a'' (JSON (encodeAsset a))) ''a'' ''Bob'') = None"
proof -
  have d: "dropWhile (accepted (oneAsset ''a'' val)) assets = []"
    by (simp add: accepted_def oneAsset_def emptyStub_def)
  show "fst (InitLedger (oneAsset ''a'' val)) = None"
    unfolding InitLedger_def InitLedger_loop_run d by simp
  show "fst (CreateAsset (oneAsset ''a'' val) ''b'' ''blue'' 1 ''Bob'' 2) = None"
    by (subst CreateAsset_absent) (simp_all add: oneAsset_def emptyStub_def)
  show "fst (UpdateAsset (oneAsset ''a'' val) ''a'' ''blue'' 1 ''Bob'' 2) = None"
    by (subst UpdateAsset_present [where val = val]) (simp_all add: oneAsset_def emptyStub_def)
  show "fst (DeleteAsset (oneAsset ''a'' val) ''a'') = None"
    by (simp add: DeleteAsset_def AssetExists_def GetState_def DelState_def oneAsset_def
        emptyStub_def)
  show "fst (TransferAsset (oneAsset ''a'' (JSON (encodeAsset a))) ''a'' ''Bob'') = None"
    by (simp add: TransferAsset_def ReadAsset_def GetState_def Unmarshal_encode Marshal_def
        PutState_def oneAsset_def emptyStub_def)
qed

text \<open>
  C10, as the code has it. Let every value of the world state decode to an asset
  whose \<open>ID\<close> is the key the value is stored under. Then the same holds of the
  world state that \<^verbatim>\<open>InitLedger\<close>, \<^verbatim>\<open>UpdateAsset\<close>, \<^verbatim>\<open>DeleteAsset\<close> and
  \<^verbatim>\<open>TransferAsset\<close> leave behind, whether they return an error or not, and of the
  world state that \<^verbatim>\<open>CreateAsset\<close> leaves behind when its id is well-formed UTF-8
  or the stub refuses to write under it.
\<close>

theorem operations_keep_keyed:
  assumes "keyed ctx"
  shows "keyed (snd (InitLedger ctx)) \<and>
         (ValidString id' \<or> (\<forall>val. put_fault ctx id' val \<noteq> None) \<longrightarrow>
            keyed (snd (CreateAsset ctx id' color size' owner appraisedValue))) \<and>
         keyed (snd (UpdateAsset ctx id' color size' owner appraisedValue)) \<and>
         keyed (snd (DeleteAsset ctx id')) \<and>
         keyed (snd (TransferAsset ctx id' newOwner))"
  using assms
  by (simp add: keyed_InitLedger keyed_CreateAsset keyed_UpdateAsset keyed_DeleteAsset
      keyed_TransferAsset del: ValidString.simps)

theorem operations_keep_keyed_witness:
  "fst (InitLedger (oneAsset ''a'' (JSON (encodeAsset
     \<lparr>AppraisedValue = 100, Color = ''red'', ID = ''a'', Owner = ''Ann'', Size = 7\<rparr>)))) = None \<and>
   keyed (snd (InitLedger (oneAsset ''a'' (JSON (encodeAsset
     \<lparr>AppraisedValue = 100, Color = ''red'', ID = ''a'', Owner = ''Ann'', Size = 7\<rparr>))))) \<and>
   fst (CreateAsset (oneAsset ''a'' (JSON (encodeAsset
     \<lparr>AppraisedValue = 100, Color = ''red'', ID = ''a'', Owner = ''Ann'', Size = 7\<rparr>)))
       ''b'' ''blue'' 1 ''Bob'' 2) = None \<and>
   keyed (snd (CreateAsset (oneAsset ''a'' (JSON (encodeAsset
     \<lparr>AppraisedValue = 100, Color = ''red'', ID = ''a'', Owner = ''Ann'', Size = 7\<rparr>)))
       ''b'' ''blue'' 1 ''Bob'' 2)) \<and>
   fst (UpdateAsset (oneAsset ''a'' (JSON (encodeAsset
     \<lparr>AppraisedValue = 100, Color = ''red'', ID = ''a'', Owner = ''Ann'', Size = 7\<rparr>)))
       ''a'' ''blue'' 1 ''Bob'' 2) = None \<and>
   keyed (snd (UpdateAsset (oneAsset ''a'' (JSON (encodeAsset
     \<lparr>AppraisedValue = 100, Color = ''red'', ID = ''a'', Owner = ''Ann'', Size = 7\<rparr>)))
       ''a'' ''blue'' 1 ''Bob'' 2)) \<and>
   fst (DeleteAsset (oneAsset ''a'' (JSON (encodeAsset
     \<lparr>AppraisedValue = 100, Color = ''red'', ID = ''a'', Owner = ''Ann'', Size = 7\<rparr>))) ''a'') = None \<and>
   keyed (snd (DeleteAsset (oneAsset ''a'' (JSON (encodeAsset
     \<lparr>AppraisedValue = 100, Color = ''red'', ID = ''a'', Owner = ''Ann'', Size = 7\<rparr>))) ''a'')) \<and>
   fst (TransferAsset (oneAsset ''a'' (JSON (encodeAsset
     \<lparr>AppraisedValue = 100, Color = ''red'', ID = ''a'', Owner = ''Ann'', Size = 7\<rparr>)))
       ''a'' ''Bob'') = None \<and>
   keyed (snd (TransferAsset (oneAsset ''a'' (JSON (encodeAsset
     \<lparr>AppraisedValue = 100, Color = ''red'', ID = ''a'', Owner = ''Ann'', Size = 7\<rparr>)))
       ''a'' ''Bob''))"
  using operations_keep_keyed [OF keyed_oneAsset, of "''b''" "''blue''" 1 "''Bob''" 2 "''Bob''"]
    operations_keep_keyed [OF keyed_oneAsset, of "''a''" "''blue''" 1 "''Bob''" 2 "''Bob''"]
    ValidString_b oneAsset_succeeds
  by (simp only: simp_thms)

text \<open>
  C10 as it is stated fails for \<^verbatim>\<open>CreateAsset\<close> with an id that is not well-formed
  UTF-8, on a stub that accepts the write: the record is stored under the byte FF
  and its \<open>ID\<close> reads U+FFFD.
\<close>

theorem CreateAsset_ill_formed_id:
  "keyed emptyStub \<and>
   fst (CreateAsset emptyStub [CHR 0xFF] ''red'' 7 ''Ann'' 100) = None \<and>
   \<not> keyed (snd (CreateAsset emptyStub [CHR 0xFF] ''red'' 7 ''Ann'' 100))"
proof -
  let ?a = "\<lparr>AppraisedValue = 100, Color = ''red'', ID = [CHR 0xFF], Owner = ''Ann'', Size = 7\<rparr>"
  have c: "CreateAsset emptyStub [CHR 0xFF] ''red'' 7 ''Ann'' 100 =
     (None, emptyStub\<lparr>state := (state emptyStub)([CHR 0xFF] \<mapsto> JSON (encodeAsset ?a))\<rparr>)"
    by (rule CreateAsset_absent) (simp_all add: emptyStub_def)
  have "\<not> keyed (emptyStub\<lparr>state := (state emptyStub)([CHR 0xFF] \<mapsto> JSON (encodeAsset ?a))\<rparr>)"
  proof
    assume "keyed (emptyStub\<lparr>state := (state emptyStub)([CHR 0xFF] \<mapsto> JSON (encodeAsset ?a))\<rparr>)"
    then have "\<exists>b. Unmarshal (JSON (encodeAsset ?a)) zeroAsset = (None, b) \<and> ID b = [CHR 0xFF]"
      unfolding keyed_def
      by (elim allE [where x = "[CHR 0xFF]"] allE [where x = "JSON (encodeAsset ?a)"]) simp
    then obtain b where "Unmarshal (JSON (encodeAsset ?a)) zeroAsset = (None, b)"
      and "ID b = [CHR 0xFF]"
      by blast
    then show False
      by (simp add: Unmarshal_encode ToValidUTF8_FF del: ToValidUTF8.simps)
         (auto simp add: RuneError_def)
  qed
  with c keyed_emptyStub show ?thesis by simp
qed

end
